theory Spec2Isabelle
  imports Main "HOL-Library.AList"
begin

section \<open>Python values and strings\<close>

text \<open>
  The program is \<^verbatim>\<open>translate.py\<close>: it reads rows of a MySQL table, translates
  text and HTML columns through an HTTP translation service and writes the
  translations back. This theory embeds its functions. What the program gets from
  outside (the HTML parser of BeautifulSoup, the HTTP service, failures of the
  database) is a parameter of the model, never a fixed choice.

  A Python \<^verbatim>\<open>str\<close> is a \<^typ>\<open>string\<close>; a character stands for a code point below
  256. \<^verbatim>\<open>str.strip()\<close> removes the characters for which \<^verbatim>\<open>str.isspace\<close> holds, which in
  that range are the code points 9 to 13, 28 to 32, 133 and 160.
\<close>

datatype exn =
    ParserRejectedMarkup
  | RequestException
  | JSONDecodeError
  | TypeError
  | AttributeError
  | IndexError
  | KeyError
  | ValueError
  | DatabaseError
  | TranslatorFailure string

definition is_space :: "char \<Rightarrow> bool" where
  "is_space c = ((of_char c :: nat) \<in> {9, 10, 11, 12, 13, 28, 29, 30, 31, 32, 133, 160})"

definition lstrip :: "string \<Rightarrow> string" where
  "lstrip s = dropWhile is_space s"

definition rstrip :: "string \<Rightarrow> string" where
  "rstrip s = rev (dropWhile is_space (rev s))"

definition strip :: "string \<Rightarrow> string" where
  "strip s = rstrip (lstrip s)"

text \<open>\<^verbatim>\<open>str(n)\<close> for a non-negative integer, as the f-string of a path needs it.\<close>

fun str_of_nat :: "nat \<Rightarrow> string" where
  "str_of_nat n =
     (if n < 10 then [char_of (48 + n)]
      else str_of_nat (n div 10) @ [char_of (48 + n mod 10)])"

declare str_of_nat.simps [simp del]

text \<open>
  The values of Python that the program handles without knowing their type: the
  decoded JSON of a response and whatever a translator returns. A JSON number is
  \<open>PInt\<close>: the program only tests a number for truth and never computes with it.
  A dictionary is an association list read with \<^const>\<open>map_of\<close>.
\<close>

datatype pyval =
    PNone
  | PBool bool
  | PInt int
  | PStr string
  | PList "pyval list"
  | PDict "(string \<times> pyval) list"

fun truthy :: "pyval \<Rightarrow> bool" where
  "truthy PNone = False"
| "truthy (PBool b) = b"
| "truthy (PInt n) = (n \<noteq> 0)"
| "truthy (PStr s) = (s \<noteq> [])"
| "truthy (PList xs) = (xs \<noteq> [])"
| "truthy (PDict kvs) = (kvs \<noteq> [])"

text \<open>\<^verbatim>\<open>v[0]\<close>: the keys of a decoded JSON object are strings, so \<^verbatim>\<open>d[0]\<close> is a KeyError.\<close>

fun getitem0 :: "pyval \<Rightarrow> exn + pyval" where
  "getitem0 (PList []) = Inl IndexError"
| "getitem0 (PList (x # xs)) = Inr x"
| "getitem0 (PStr []) = Inl IndexError"
| "getitem0 (PStr (c # cs)) = Inr (PStr [c])"
| "getitem0 (PDict kvs) = Inl KeyError"
| "getitem0 PNone = Inl TypeError"
| "getitem0 (PBool b) = Inl TypeError"
| "getitem0 (PInt n) = Inl TypeError"

text \<open>\<^verbatim>\<open>v.get(key, default)\<close>: only a dictionary has the method.\<close>

fun dict_get :: "pyval \<Rightarrow> string \<Rightarrow> pyval \<Rightarrow> exn + pyval" where
  "dict_get (PDict kvs) k d = Inr (case map_of kvs k of None \<Rightarrow> d | Some v \<Rightarrow> v)"
| "dict_get PNone k d = Inl AttributeError"
| "dict_get (PBool b) k d = Inl AttributeError"
| "dict_get (PInt n) k d = Inl AttributeError"
| "dict_get (PStr s) k d = Inl AttributeError"
| "dict_get (PList xs) k d = Inl AttributeError"

text \<open>\<^verbatim>\<open>for item in v\<close>: a list gives its items, a dictionary its keys, a string its characters.\<close>

fun py_iter :: "pyval \<Rightarrow> exn + pyval list" where
  "py_iter (PList xs) = Inr xs"
| "py_iter (PDict kvs) = Inr (map (\<lambda>kv. PStr (fst kv)) kvs)"
| "py_iter (PStr s) = Inr (map (\<lambda>c. PStr [c]) s)"
| "py_iter PNone = Inl TypeError"
| "py_iter (PBool b) = Inl TypeError"
| "py_iter (PInt n) = Inl TypeError"

section \<open>The parse tree of BeautifulSoup\<close>

text \<open>
  A child of an element is a \<^verbatim>\<open>Tag\<close> or a \<^verbatim>\<open>NavigableString\<close>. The classes
  \<^verbatim>\<open>Comment\<close>, \<^verbatim>\<open>CData\<close>, \<^verbatim>\<open>ProcessingInstruction\<close>, \<^verbatim>\<open>Declaration\<close> and \<^verbatim>\<open>Doctype\<close> are
  subclasses of \<^verbatim>\<open>NavigableString\<close>, so \<^verbatim>\<open>isinstance(child, NavigableString)\<close> holds for
  them too; the kind records the class. The value of an attribute is a string, or a
  list of strings for a multi-valued attribute such as \<^verbatim>\<open>class\<close>.

  The parser \<^verbatim>\<open>BeautifulSoup(html, "html.parser")\<close> is a parameter: it gives the
  contents of the soup or raises. The soup itself is an element named
  \<^verbatim>\<open>[document]\<close> without attributes. \<^verbatim>\<open>str(soup)\<close> is a parameter as well.
\<close>

datatype str_kind = PlainString | Comment | CData | ProcessingInstruction | Declaration | Doctype

datatype attr_value = AttrStr string | AttrList "string list"

type_synonym attrs = "(string \<times> attr_value) list"

datatype node =
    NavigableString str_kind string
  | Tag string attrs "node list"

type_synonym parser = "string \<Rightarrow> exn + node list"

type_synonym renderer = "node list \<Rightarrow> string"

definition document_name :: string where
  "document_name = ''[document]''"

subsection \<open>is_html\<close>

text \<open>
  \<^verbatim>\<open>find_all()\<close> without arguments lists every \<^verbatim>\<open>Tag\<close> below the soup in document
  order (a tag before the tags inside it), and \<^verbatim>\<open>soup.find()\<close> is the first of them or
  \<^verbatim>\<open>None\<close>. \<^verbatim>\<open>bool(tag)\<close> is true for every tag.
\<close>

fun find_all :: "node list \<Rightarrow> node list" where
  "find_all [] = []"
| "find_all (NavigableString k s # rest) = find_all rest"
| "find_all (Tag n a cs # rest) = Tag n a cs # find_all cs @ find_all rest"

definition soup_find :: "node list \<Rightarrow> node option" where
  "soup_find soup = (case find_all soup of [] \<Rightarrow> None | t # ts \<Rightarrow> Some t)"

definition is_html :: "parser \<Rightarrow> string option \<Rightarrow> bool" where
  "is_html parse text =
     (case text of
        None \<Rightarrow> False
      | Some t \<Rightarrow>
          if t = [] then False
          else if CHR ''<'' \<in> set t \<and> CHR ''>'' \<in> set t then
            (case parse t of
               Inl e \<Rightarrow> False
             | Inr soup \<Rightarrow> soup_find soup \<noteq> None)
          else False)"

subsection \<open>extract_text_nodes\<close>

text \<open>A record of the list returned; the key \<^verbatim>\<open>text\<close> of the source is the field \<open>node_text\<close>.\<close>

record text_node =
  node_text :: string
  parent_tag :: string
  attrs_of :: attrs
  path :: string

text \<open>
  \<^verbatim>\<open>recurse(el, path)\<close> runs over \<^verbatim>\<open>enumerate(el.contents)\<close>; the model takes the name and
  the attributes of \<^verbatim>\<open>el\<close>, the path, the index reached and the children left. The
  list \<^verbatim>\<open>nodes\<close> it appends to is the list returned.
\<close>

definition child_path :: "string \<Rightarrow> string \<Rightarrow> nat \<Rightarrow> string" where
  "child_path p name idx =
     (if name \<noteq> [] then p @ ''/'' @ name @ ''['' @ str_of_nat idx @ '']'' else p)"

fun recurse :: "string \<Rightarrow> attrs \<Rightarrow> string \<Rightarrow> nat \<Rightarrow> node list \<Rightarrow> text_node list" where
  "recurse name a p idx [] = []"
| "recurse name a p idx (NavigableString k s # rest) =
     (if strip s \<noteq> []
      then [\<lparr>node_text = strip s,
             parent_tag = (if name \<noteq> [] then name else []),
             attrs_of = (if name \<noteq> [] then a else []),
             path = child_path p name idx\<rparr>]
      else [])
     @ recurse name a p (Suc idx) rest"
| "recurse name a p idx (Tag n b cs # rest) =
     recurse n b (child_path p name idx) 0 cs @ recurse name a p (Suc idx) rest"

definition extract_text_nodes :: "parser \<Rightarrow> string \<Rightarrow> exn + text_node list" where
  "extract_text_nodes parse html =
     (case parse html of
        Inl e \<Rightarrow> Inl e
      | Inr soup \<Rightarrow> Inr (recurse document_name [] [] 0 soup))"

subsection \<open>rebuild_html_from_nodes\<close>

text \<open>
  \<^verbatim>\<open>recurse_replace(el)\<close> runs over \<^verbatim>\<open>el.contents\<close> with the counter \<^verbatim>\<open>idx\<close> shared by all
  calls; the model returns the new children and the counter.
  \<^verbatim>\<open>child.replace_with(s)\<close> puts a plain \<^verbatim>\<open>NavigableString\<close> made from the string \<^verbatim>\<open>s\<close> at
  the place of \<^verbatim>\<open>child\<close>, so the list keeps its length and the loop goes on with
  the next child.
\<close>

fun recurse_replace :: "string list \<Rightarrow> node list \<Rightarrow> nat \<Rightarrow> node list \<times> nat" where
  "recurse_replace ts [] idx = ([], idx)"
| "recurse_replace ts (NavigableString k s # rest) idx =
     (if strip s \<noteq> [] \<and> idx < length ts
      then (case recurse_replace ts rest (Suc idx) of
              (rest', idx') \<Rightarrow> (NavigableString PlainString (ts ! idx) # rest', idx'))
      else (case recurse_replace ts rest idx of
              (rest', idx') \<Rightarrow> (NavigableString k s # rest', idx')))"
| "recurse_replace ts (Tag n a cs # rest) idx =
     (case recurse_replace ts cs idx of
        (cs', idx1) \<Rightarrow>
          (case recurse_replace ts rest idx1 of
             (rest', idx2) \<Rightarrow> (Tag n a cs' # rest', idx2)))"

text \<open>The soup after \<^verbatim>\<open>recurse_replace(soup)\<close>, before \<^verbatim>\<open>str(soup)\<close>.\<close>

definition rebuild_soup :: "parser \<Rightarrow> string \<Rightarrow> string list \<Rightarrow> exn + node list" where
  "rebuild_soup parse html translated_texts =
     (case parse html of
        Inl e \<Rightarrow> Inl e
      | Inr soup \<Rightarrow> Inr (fst (recurse_replace translated_texts soup 0)))"

definition rebuild_html_from_nodes ::
  "parser \<Rightarrow> renderer \<Rightarrow> string \<Rightarrow> string list \<Rightarrow> exn + string" where
  "rebuild_html_from_nodes parse render html translated_texts =
     (case rebuild_soup parse html translated_texts of
        Inl e \<Rightarrow> Inl e
      | Inr soup \<Rightarrow> Inr (render soup))"

subsection \<open>What a tree holds\<close>

text \<open>
  The strings of a tree in document order with their kinds, the tree without its
  strings, and the test of both traversals: a string is a leaf when
  \<^verbatim>\<open>child.strip()\<close> is not empty.
\<close>

fun strings :: "node list \<Rightarrow> (str_kind \<times> string) list" where
  "strings [] = []"
| "strings (NavigableString k s # rest) = (k, s) # strings rest"
| "strings (Tag n a cs # rest) = strings cs @ strings rest"

fun skeleton :: "node list \<Rightarrow> node list" where
  "skeleton [] = []"
| "skeleton (NavigableString k s # rest) = NavigableString PlainString [] # skeleton rest"
| "skeleton (Tag n a cs # rest) = Tag n a (skeleton cs) # skeleton rest"

definition is_leaf :: "str_kind \<times> string \<Rightarrow> bool" where
  "is_leaf x = (strip (snd x) \<noteq> [])"

text \<open>The tree in which every leaf is a plain string holding its stripped text.\<close>

fun trim_leaves :: "node list \<Rightarrow> node list" where
  "trim_leaves [] = []"
| "trim_leaves (NavigableString k s # rest) =
     (if strip s \<noteq> [] then NavigableString PlainString (strip s) else NavigableString k s)
     # trim_leaves rest"
| "trim_leaves (Tag n a cs # rest) = Tag n a (trim_leaves cs) # trim_leaves rest"

text \<open>Values put on the leaves of a list of strings, one after the other, while there are values.\<close>

fun subst :: "string list \<Rightarrow> (str_kind \<times> string) list \<Rightarrow> (str_kind \<times> string) list" where
  "subst ts [] = []"
| "subst [] (x # xs) = x # xs"
| "subst (t # ts) (x # xs) =
     (if is_leaf x then (PlainString, t) # subst ts xs else x # subst (t # ts) xs)"

section \<open>What the program does to the outside\<close>

text \<open>
  A cell of a table is \<^verbatim>\<open>NULL\<close> or a text; a key that is a number is the text of the
  number. A column of \<^verbatim>\<open>INFORMATION_SCHEMA.COLUMNS\<close> is its name, its data type and its
  \<^verbatim>\<open>COLUMN_KEY\<close>. The statements are the seven the program sends, with the
  identifiers and parameters they carry: \<^verbatim>\<open>quote_ident\<close> doubles each backquote inside
  the backquotes it adds, so the identifier the server reads is the name given.
\<close>

type_synonym cell = "string option"

type_synonym column_info = "string \<times> string \<times> string"

datatype stmt =
    SelectColumns "string option" string
  | CountColumn "string option" string string
  | AlterAddColumn string string
  | CountPending string string string
  | SelectPending string string string string int int
  | UpdateRow string string string string string cell
  | Commit

definition quote_ident :: "string \<Rightarrow> string" where
  "quote_ident name = ''`'' @ concat (map (\<lambda>c. if c = CHR ''`'' then ''``'' else [c]) name) @ ''`''"

text \<open>The lines the program prints, each with the values it shows.\<close>

datatype message =
    MsgBody "string list"
  | MsgApiStatus int string
  | MsgApiError exn
  | MsgColumnCreated string string
  | MsgNoPrimaryKey string
  | MsgPending string string int
  | MsgTranslateError exn
  | MsgUpdateFailed cell exn
  | MsgSkipped cell
  | MsgProgress int int

text \<open>
  Everything the program does to the outside, in the order it does it: a request
  to the translation service with its URL and the texts of its body, a sleep, a
  printed line, a statement sent to the database, and a call of a method of the
  translator object by \<^verbatim>\<open>translate_and_update\<close> with the text and the language.
\<close>

datatype event =
    Post string "string list"
  | Sleep nat
  | Print message
  | Sql stmt
  | CallTranslateHtml string string
  | CallTranslateBatch "string list" string

section \<open>The translation client\<close>

text \<open>
  The answer of \<^verbatim>\<open>requests.post\<close>: an exception, or a response with its status code,
  its text and what \<^verbatim>\<open>r.json()\<close> gives (a value or an exception). The service is a
  function of what happened before, the URL and the texts sent. The headers and the
  timeout of the request have no part in what the function does next.
\<close>

datatype http_outcome = Raises exn | Response int string "exn + pyval"

type_synonym network = "event list \<Rightarrow> string \<Rightarrow> string list \<Rightarrow> http_outcome"

record translator_api =
  key :: string
  region :: string
  target_lang :: string
  endpoint :: string

definition rstrip_slash :: "string \<Rightarrow> string" where
  "rstrip_slash s = rev (dropWhile (\<lambda>c. c = CHR ''/'') (rev s))"

definition TranslatorAPI_MIC :: "string \<Rightarrow> string \<Rightarrow> string \<Rightarrow> string \<Rightarrow> exn + translator_api" where
  "TranslatorAPI_MIC k r lng ep =
     (if k = [] \<or> r = [] then Inl ValueError
      else Inr \<lparr>key = k, region = r, target_lang = lng, endpoint = rstrip_slash ep\<rparr>)"

definition request_url :: "translator_api \<Rightarrow> string option \<Rightarrow> string" where
  "request_url self lang =
     endpoint self @ ''/translate?api-version=3.0&to=''
       @ (case lang of None \<Rightarrow> target_lang self | Some l \<Rightarrow> if l \<noteq> [] then l else target_lang self)
       @ ''&textType=html''"

text \<open>The body of the loop over the decoded response: one item gives one output.\<close>

definition first_translation :: "pyval \<Rightarrow> exn + pyval" where
  "first_translation item =
     (case dict_get item ''translations'' (PList []) of
        Inl e \<Rightarrow> Inl e
      | Inr tr \<Rightarrow>
          if truthy tr then
            (case getitem0 tr of
               Inl e \<Rightarrow> Inl e
             | Inr t0 \<Rightarrow> dict_get t0 ''text'' (PStr []))
          else Inr (PStr []))"

fun collect_items :: "pyval list \<Rightarrow> exn + pyval list" where
  "collect_items [] = Inr []"
| "collect_items (item # rest) =
     (case first_translation item of
        Inl e \<Rightarrow> Inl e
      | Inr t \<Rightarrow>
          (case collect_items rest of
             Inl e \<Rightarrow> Inl e
           | Inr out \<Rightarrow> Inr (t # out)))"

definition read_translations :: "pyval \<Rightarrow> exn + pyval list" where
  "read_translations data =
     (case py_iter data of
        Inl e \<Rightarrow> Inl e
      | Inr items \<Rightarrow> collect_items items)"

text \<open>
  One pass of the body of \<^verbatim>\<open>while attempt < retry\<close> up to \<^verbatim>\<open>attempt += 1\<close>: the list
  returned, or nothing when the pass ends in the \<^verbatim>\<open>else\<close> branch or in the handler.
\<close>

definition post_once :: "network \<Rightarrow> string \<Rightarrow> string list \<Rightarrow> event list \<Rightarrow> pyval list option \<times> event list" where
  "post_once net url texts tr =
     (case net tr url texts of
        Raises e \<Rightarrow>
          (None, tr @ [Post url texts, Print (MsgBody texts), Print (MsgApiError e)])
      | Response status body js \<Rightarrow>
          if status = 200 then
            (case js of
               Inl e \<Rightarrow> (None, tr @ [Post url texts, Print (MsgBody texts), Print (MsgApiError e)])
             | Inr data \<Rightarrow>
                 (case read_translations data of
                    Inl e \<Rightarrow>
                      (None, tr @ [Post url texts, Print (MsgBody texts), Print (MsgApiError e)])
                  | Inr out \<Rightarrow> (Some out, tr @ [Post url texts])))
          else (None, tr @ [Post url texts, Print (MsgBody texts), Print (MsgApiStatus status body)]))"

function translate_attempts ::
  "network \<Rightarrow> string \<Rightarrow> string list \<Rightarrow> int \<Rightarrow> int \<Rightarrow> event list \<Rightarrow> pyval list \<times> event list" where
  "translate_attempts net url texts retry attempt tr =
     (if attempt < retry then
        (case post_once net url texts tr of
           (Some out, tr1) \<Rightarrow> (out, tr1)
         | (None, tr1) \<Rightarrow>
             translate_attempts net url texts retry (attempt + 1)
               (tr1 @ [Sleep (2 ^ nat (attempt + 1))]))
      else (replicate (length texts) (PStr []), tr))"
  by pat_completeness auto
termination
  by (relation "measure (\<lambda>(net, url, texts, retry, attempt, tr). nat (retry - attempt))") auto

declare translate_attempts.simps [simp del]

definition translate_batch ::
  "translator_api \<Rightarrow> network \<Rightarrow> string list \<Rightarrow> string option \<Rightarrow> int \<Rightarrow> event list
     \<Rightarrow> (exn + pyval list) \<times> event list" where
  "translate_batch self net texts lang retry tr =
     (if texts = [] then (Inr [], tr)
      else (case translate_attempts net (request_url self lang) texts retry 0 tr of
              (out, tr') \<Rightarrow> (Inr out, tr')))"

text \<open>A response that is not a 200, or an exception of the transport.\<close>

definition non_success :: "http_outcome \<Rightarrow> bool" where
  "non_success r = (case r of Raises e \<Rightarrow> True | Response status body js \<Rightarrow> status \<noteq> 200)"

definition posts :: "event list \<Rightarrow> nat" where
  "posts tr = length (filter (\<lambda>e. case e of Post url texts \<Rightarrow> True | _ \<Rightarrow> False) tr)"

section \<open>The database\<close>

text \<open>
  The server holds tables, each found by the name of its schema and its own name,
  with its columns in ordinal order and its rows, a row holding one cell for each
  column. The connection has the attribute \<^verbatim>\<open>database\<close>, the schema in which a
  statement finds a table named without a schema. Names and texts are compared as
  they are written. \<^verbatim>\<open>SELECT\<close> without \<^verbatim>\<open>ORDER BY\<close> gives the rows in the order of the
  table. The world of a run is the connection, the tables and what the program
  has done so far.
\<close>

record table =
  columns :: "column_info list"
  rows :: "cell list list"

type_synonym tables = "((string \<times> string) \<times> table) list"

record world =
  database :: "string option"
  tables :: tables
  trace :: "event list"

datatype result = Columns "column_info list" | Count int | Rows "(cell \<times> cell) list" | Done




fun index_of :: "'a \<Rightarrow> 'a list \<Rightarrow> nat option" where
  "index_of x [] = None"
| "index_of x (y # ys) = (if x = y then Some 0 else map_option Suc (index_of x ys))"

definition column_index :: "table \<Rightarrow> string \<Rightarrow> nat option" where
  "column_index t c = index_of c (map fst (columns t))"

definition cell_at :: "cell list \<Rightarrow> nat \<Rightarrow> cell" where
  "cell_at r i = (if i < length r then r ! i else None)"

text \<open>
  The predicate of both queries: the source column is not \<^verbatim>\<open>NULL\<close> and not empty, and
  the target column is \<^verbatim>\<open>NULL\<close> or empty.
\<close>

definition pending :: "nat \<Rightarrow> nat \<Rightarrow> cell list \<Rightarrow> bool" where
  "pending ic it r =
     (case cell_at r ic of
        None \<Rightarrow> False
      | Some s \<Rightarrow> s \<noteq> [] \<and> (case cell_at r it of None \<Rightarrow> True | Some t \<Rightarrow> t = []))"

definition schema_columns :: "tables \<Rightarrow> string option \<Rightarrow> string \<Rightarrow> column_info list" where
  "schema_columns tabs schema name =
     (case schema of
        None \<Rightarrow> []
      | Some s \<Rightarrow> (case map_of tabs (s, name) of None \<Rightarrow> [] | Some t \<Rightarrow> columns t))"

definition current_table :: "world \<Rightarrow> string \<Rightarrow> ((string \<times> string) \<times> table) option" where
  "current_table w name =
     (case database w of
        None \<Rightarrow> None
      | Some d \<Rightarrow> (case map_of (tables w) (d, name) of None \<Rightarrow> None | Some t \<Rightarrow> Some ((d, name), t)))"

text \<open>
  \<^verbatim>\<open>WHERE pk = rid\<close> holds for a row whose key cell is not \<^verbatim>\<open>NULL\<close> and equals the
  parameter; the statement sets the target column and the source column of every
  such row.
\<close>

definition update_cells :: "nat \<Rightarrow> nat \<Rightarrow> nat \<Rightarrow> string \<Rightarrow> cell \<Rightarrow> cell list \<Rightarrow> cell list" where
  "update_cells it ic ip v rid r =
     (if cell_at r ip \<noteq> None \<and> cell_at r ip = rid then (r[it := Some v])[ic := Some v] else r)"

text \<open>What the server does with a statement: an error, or a result and the tables after it.\<close>

fun run_stmt :: "stmt \<Rightarrow> world \<Rightarrow> exn + result \<times> tables" where
  "run_stmt (SelectColumns schema name) w =
     Inr (Columns (schema_columns (tables w) schema name), tables w)"
| "run_stmt (CountColumn schema name c) w =
     Inr (Count (int (length (filter (\<lambda>ci. fst ci = c) (schema_columns (tables w) schema name)))),
          tables w)"
| "run_stmt (AlterAddColumn name c) w =
     (case current_table w name of
        None \<Rightarrow> Inl DatabaseError
      | Some (k, t) \<Rightarrow>
          if c \<in> set (map fst (columns t)) then Inl DatabaseError
          else Inr (Done,
                 AList.update k
                   (t\<lparr>columns := columns t @ [(c, ''longtext'', [])],
                      rows := map (\<lambda>r. r @ [None]) (rows t)\<rparr>)
                   (tables w)))"
| "run_stmt (CountPending name c tc) w =
     (case current_table w name of
        None \<Rightarrow> Inl DatabaseError
      | Some (k, t) \<Rightarrow>
          (case (column_index t c, column_index t tc) of
             (Some ic, Some it) \<Rightarrow>
               Inr (Count (int (length (filter (pending ic it) (rows t)))), tables w)
           | _ \<Rightarrow> Inl DatabaseError))"
| "run_stmt (SelectPending name pk c tc limit offset) w =
     (case current_table w name of
        None \<Rightarrow> Inl DatabaseError
      | Some (k, t) \<Rightarrow>
          (case (column_index t pk, column_index t c, column_index t tc) of
             (Some ip, Some ic, Some it) \<Rightarrow>
               if limit < 0 \<or> offset < 0 then Inl DatabaseError
               else Inr (Rows (map (\<lambda>r. (cell_at r ip, cell_at r ic))
                                (take (nat limit) (drop (nat offset) (filter (pending ic it) (rows t))))),
                         tables w)
           | _ \<Rightarrow> Inl DatabaseError))"
| "run_stmt (UpdateRow name tc c pk v rid) w =
     (case current_table w name of
        None \<Rightarrow> Inl DatabaseError
      | Some (k, t) \<Rightarrow>
          (case (column_index t tc, column_index t c, column_index t pk) of
             (Some it, Some ic, Some ip) \<Rightarrow>
               Inr (Done, AList.update k (t\<lparr>rows := map (update_cells it ic ip v rid) (rows t)\<rparr>) (tables w))
           | _ \<Rightarrow> Inl DatabaseError))"
| "run_stmt Commit w = Inr (Done, tables w)"

text \<open>
  \<^verbatim>\<open>cursor.execute\<close> and \<^verbatim>\<open>conn.commit\<close>. A statement can fail for a reason that is not in
  the tables (a lost connection, a lock, a value too long): whether it does is a
  function of what happened before and of the statement. A statement that fails
  changes no table. Opening and closing a cursor never fails.
\<close>

type_synonym faults = "event list \<Rightarrow> stmt \<Rightarrow> bool"

definition emit :: "event \<Rightarrow> world \<Rightarrow> world" where
  "emit e w = w\<lparr>trace := trace w @ [e]\<rparr>"

definition execute :: "faults \<Rightarrow> stmt \<Rightarrow> world \<Rightarrow> (exn + result) \<times> world" where
  "execute F q w =
     (if F (trace w) q then (Inl DatabaseError, emit (Sql q) w)
      else (case run_stmt q w of
              Inl e \<Rightarrow> (Inl e, emit (Sql q) w)
            | Inr (res, tabs) \<Rightarrow> (Inr res, emit (Sql q) (w\<lparr>tables := tabs\<rparr>))))"

subsection \<open>Schema queries\<close>








fun is_alter :: "event \<Rightarrow> bool" where
  "is_alter (Sql (AlterAddColumn name c)) = True"
| "is_alter e = False"

definition alters :: "event list \<Rightarrow> nat" where
  "alters tr = length (filter is_alter tr)"

section \<open>translate_and_update\<close>

text \<open>
  The translator is the object the caller passes: \<^verbatim>\<open>translate_and_update\<close> calls its
  methods \<^verbatim>\<open>translate_html(txt, lang=lang)\<close> and \<^verbatim>\<open>translate_batch([txt], lang=lang)\<close> and
  knows nothing else of it. A method gives a value of Python or raises, as a
  function of what happened before, the text and the language.
\<close>

record translator =
  translate_html_method :: "event list \<Rightarrow> string \<Rightarrow> string \<Rightarrow> exn + pyval"
  translate_batch_method :: "event list \<Rightarrow> string list \<Rightarrow> string \<Rightarrow> exn + pyval"

record env =
  parser_of :: parser
  translator_of :: translator
  faults_of :: faults

text \<open>The counters of one column. The program keeps them in \<^verbatim>\<open>summary[table][col]\<close>.\<close>

record ledger =
  total :: int
  ok :: int
  fail :: int


subsection \<open>Translating the texts of a page\<close>



subsection \<open>Writing a page back\<close>

text \<open>
  One pass of the loop over \<^verbatim>\<open>zip(ids, texts, translations)\<close>. \<^verbatim>\<open>tr.strip()\<close> is outside
  the \<^verbatim>\<open>try\<close>: for a value that is true and not a string it raises, and nothing
  catches it.
\<close>

definition write_row ::
  "env \<Rightarrow> string \<Rightarrow> string \<Rightarrow> string \<Rightarrow> string \<Rightarrow> cell \<Rightarrow> pyval \<Rightarrow> ledger \<Rightarrow> world
     \<Rightarrow> (exn + ledger) \<times> world" where
  "write_row E name target_col col pk rid tr led w =
     (if truthy tr then
        (case tr of
           PStr s \<Rightarrow>
             if strip s \<noteq> [] then
               (case execute (faults_of E) (UpdateRow name target_col col pk s rid) w of
                  (Inr r, w1) \<Rightarrow> (Inr (led\<lparr>ok := ok led + 1\<rparr>), w1)
                | (Inl e, w1) \<Rightarrow>
                    (Inr (led\<lparr>fail := fail led + 1\<rparr>), emit (Print (MsgUpdateFailed rid e)) w1))
             else (Inr (led\<lparr>fail := fail led + 1\<rparr>), emit (Print (MsgSkipped rid)) w)
         | _ \<Rightarrow> (Inl AttributeError, w))
      else (Inr (led\<lparr>fail := fail led + 1\<rparr>), emit (Print (MsgSkipped rid)) w))"



subsection \<open>The pages of a column\<close>



subsection \<open>Columns and tables\<close>







subsection \<open>Reading what a run has done\<close>

text \<open>
  The offsets of the pages asked for, the keys of the rows written back or
  skipped, and the texts handed to the translator, each in the order of the run.
\<close>

fun offsets :: "event list \<Rightarrow> int list" where
  "offsets [] = []"
| "offsets (Sql (SelectPending name pk c tc limit offset) # tr) = offset # offsets tr"
| "offsets (e # tr) = offsets tr"

fun row_ids :: "event list \<Rightarrow> cell list" where
  "row_ids [] = []"
| "row_ids (Sql (UpdateRow name tc c pk v rid) # tr) = rid # row_ids tr"
| "row_ids (Print (MsgSkipped rid) # tr) = rid # row_ids tr"
| "row_ids (e # tr) = row_ids tr"

fun translated :: "event list \<Rightarrow> string list" where
  "translated [] = []"
| "translated (CallTranslateHtml txt lang # tr) = txt # translated tr"
| "translated (CallTranslateBatch txts lang # tr) = txts @ translated tr"
| "translated (e # tr) = translated tr"

text \<open>
  The rows for which an \<^verbatim>\<open>UPDATE\<close> was sent, each with its key and the value written, in
  the order of the run.
\<close>

fun updates :: "event list \<Rightarrow> (cell \<times> string) list" where
  "updates [] = []"
| "updates (Sql (UpdateRow name tc c pk v rid) # tr) = (rid, v) # updates tr"
| "updates (e # tr) = updates tr"




section \<open>Example data\<close>



definition doc_world_ready :: world where
  "doc_world_ready =
     \<lparr>database = Some ''cms'',
      tables = [((''cms'', ''doc''),
                 \<lparr>columns = [(''id'', ''int'', ''PRI''), (''title'', ''text'', []), (''title_de'', ''longtext'', [])],
                  rows = [[Some ''1'', Some ''<p>Hello</p>'', None], [Some ''2'', Some ''World'', None]]\<rparr>)],
      trace = []\<rparr>"

definition stub_parser :: parser where
  "stub_parser t =
     (if t = ''<p>Hello</p>'' then Inr [Tag ''p'' [] [NavigableString PlainString ''Hello'']]
      else Inr [NavigableString PlainString t])"

definition stub_translator :: translator where
  "stub_translator =
     \<lparr>translate_html_method = (\<lambda>h t l. Inr (PStr ''<p>Hallo</p>'')),
      translate_batch_method = (\<lambda>h ts l. Inr (PList [PStr ''Welt'']))\<rparr>"



definition stub_env :: env where
  "stub_env = \<lparr>parser_of = stub_parser, translator_of = stub_translator, faults_of = (\<lambda>h q. False)\<rparr>"

section \<open>Properties of the markup codec\<close>

lemma find_all_empty_iff: "find_all soup = [] \<longleftrightarrow> soup_find soup = None"
  by (simp add: soup_find_def split: list.splits)

lemma recurse_texts:
  "map node_text (recurse name a p idx cs) = map (\<lambda>x. strip (snd x)) (filter is_leaf (strings cs))"
  by (induction name a p idx cs rule: recurse.induct) (simp_all add: is_leaf_def)

lemma recurse_length: "length (recurse name a p idx cs) = length (filter is_leaf (strings cs))"
  using recurse_texts [of name a p idx cs] by (metis length_map)

lemma replace_echo:
  "recurse_replace (pre @ map (\<lambda>x. strip (snd x)) (filter is_leaf (strings cs)) @ post) cs (length pre)
     = (trim_leaves cs, length pre + length (filter is_leaf (strings cs)))"
proof (induction cs arbitrary: pre post rule: trim_leaves.induct)
  case 1
  then show ?case by simp
next
  case (2 k s rest)
  show ?case
  proof (cases "strip s = []")
    case True
    then show ?thesis using 2 [of pre post] by (simp add: is_leaf_def)
  next
    case False
    then show ?thesis using 2 [of "pre @ [strip s]" post] by (simp add: is_leaf_def nth_append)
  qed
next
  case (3 n a cs rest)
  show ?case
    using 3(1) [of pre "map (\<lambda>x. strip (snd x)) (filter is_leaf (strings rest)) @ post"]
      3(2) [of "pre @ map (\<lambda>x. strip (snd x)) (filter is_leaf (strings cs))" post]
    by simp
qed

lemma skeleton_trim_leaves: "skeleton (trim_leaves cs) = skeleton cs"
  by (induction cs rule: trim_leaves.induct) simp_all

lemma trim_leaves_fixed:
  "trim_leaves cs = cs \<longleftrightarrow>
     (\<forall>x \<in> set (strings cs). is_leaf x \<longrightarrow> fst x = PlainString \<and> strip (snd x) = snd x)"
  by (induction cs rule: trim_leaves.induct) (auto simp: is_leaf_def)

lemma subst_Nil [simp]: "subst [] xs = xs"
  by (cases xs) simp_all

lemma subst_append:
  "subst ts (xs @ ys) = subst ts xs @ subst (drop (length (filter is_leaf xs)) ts) ys"
  by (induction ts xs rule: subst.induct) simp_all

lemma replace_strings:
  "strings (fst (recurse_replace ts cs idx)) = subst (drop idx ts) (strings cs)
   \<and> snd (recurse_replace ts cs idx)
       = idx + min (length ts - idx) (length (filter is_leaf (strings cs)))"
proof (induction ts cs idx rule: recurse_replace.induct)
  case (1 ts idx)
  then show ?case by simp
next
  case (2 ts k s rest idx)
  show ?case
  proof (cases "strip s \<noteq> [] \<and> idx < length ts")
    case True
    then have d: "drop idx ts = ts ! idx # drop (Suc idx) ts"
      by (simp add: Cons_nth_drop_Suc)
    from True 2(1) show ?thesis
      by (auto simp: d is_leaf_def split: prod.splits)
  next
    case False
    show ?thesis
    proof (cases "idx < length ts")
      case True
      then obtain t ts' where d: "drop idx ts = t # ts'"
        by (metis Cons_nth_drop_Suc)
      from True False 2(2) show ?thesis
        by (auto simp: d is_leaf_def split: prod.splits)
    next
      case False
      with 2(2) show ?thesis
        by (auto simp: is_leaf_def split: prod.splits)
    qed
  qed
next
  case (3 ts n a cs rest idx)
  obtain cs' i1 where r1: "recurse_replace ts cs idx = (cs', i1)"
    by (cases "recurse_replace ts cs idx")
  obtain rest' i2 where r2: "recurse_replace ts rest i1 = (rest', i2)"
    by (cases "recurse_replace ts rest i1")
  from 3(1) r1 have a: "strings cs' = subst (drop idx ts) (strings cs)"
    and b: "i1 = idx + min (length ts - idx) (length (filter is_leaf (strings cs)))"
    by simp_all
  from 3(2) [OF r1 [symmetric]] r2 have c: "strings rest' = subst (drop i1 ts) (strings rest)"
    and d: "i2 = i1 + min (length ts - i1) (length (filter is_leaf (strings rest)))"
    by simp_all
  have e: "drop (length (filter is_leaf (strings cs)) + idx) ts = drop i1 ts"
    by (cases "length ts - idx \<le> length (filter is_leaf (strings cs))")
      (auto simp: b min_def add.commute)
  have res: "recurse_replace ts (Tag n a cs # rest) idx = (Tag n a cs' # rest', i2)"
    by (simp add: r1 r2)
  have s1: "strings (Tag n a cs' # rest') = subst (drop idx ts) (strings (Tag n a cs # rest))"
    by (simp add: a c subst_append e)
  have s2: "i2 = idx + min (length ts - idx) (length (filter is_leaf (strings (Tag n a cs # rest))))"
    using b d by (simp del: min_less_iff_conj) arith
  show ?case
    unfolding res using s1 s2 by simp
qed

lemma replace_skeleton: "skeleton (fst (recurse_replace ts cs idx)) = skeleton cs"
  by (induction ts cs idx rule: recurse_replace.induct) (auto split: prod.splits)

lemma subst_length [simp]: "length (subst ts xs) = length xs"
  by (induction ts xs rule: subst.induct) simp_all

lemma zip_same_leaves:
  "map snd (filter (\<lambda>p. is_leaf (fst p)) (zip ys ys)) = filter is_leaf ys"
  by (induction ys) simp_all

lemma subst_leaves:
  "map snd (filter (\<lambda>p. is_leaf (fst p)) (zip xs (subst ts xs)))
     = map (Pair PlainString) (take (length (filter is_leaf xs)) ts)
       @ drop (length ts) (filter is_leaf xs)"
proof (induction ts xs rule: subst.induct)
  case (1 ts)
  then show ?case by simp
next
  case (2 x xs)
  from zip_same_leaves [of "x # xs"] show ?case by simp
next
  case (3 t ts x xs)
  then show ?case by simp
qed

lemma subst_others:
  "(x, y) \<in> set (zip xs (subst ts xs)) \<Longrightarrow> \<not> is_leaf x \<Longrightarrow> y = x"
proof (induction ts xs rule: subst.induct)
  case (2 x' xs)
  then show ?case by (auto simp: zip_same)
next
  case (3 t ts x' xs)
  then show ?case by (cases "is_leaf x'") auto
qed simp

lemma str_of_nat_digits:
  "str_of_nat 0 = ''0''" "str_of_nat (Suc 0) = ''1''" "str_of_nat 1 = ''1''" "str_of_nat 2 = ''2''"
  by code_simp+

text \<open>
  Claim C8. \<^verbatim>\<open>is_html\<close> is false for \<^verbatim>\<open>None\<close> and for the empty string. For any other
  text it is true exactly when the text holds both \<^verbatim>\<open><\<close> and \<^verbatim>\<open>>\<close> and the parser gives a
  tree with at least one element. When \<^verbatim>\<open><p>hi</p>\<close> parses to the element \<^verbatim>\<open>p\<close> around the
  string \<^verbatim>\<open>hi\<close>, \<^verbatim>\<open>is_html\<close> is true for it; when \<^verbatim>\<open>a < b and b > c\<close> parses to one string
  and no element, \<^verbatim>\<open>is_html\<close> is false for it.
\<close>

theorem is_html_iff:
  "is_html parse None = False
   \<and> is_html parse (Some []) = False
   \<and> (is_html parse (Some t) \<longleftrightarrow>
        CHR ''<'' \<in> set t \<and> CHR ''>'' \<in> set t \<and> (\<exists>soup. parse t = Inr soup \<and> find_all soup \<noteq> []))
   \<and> (parse ''<p>hi</p>'' = Inr [Tag ''p'' [] [NavigableString PlainString ''hi'']]
        \<longrightarrow> is_html parse (Some ''<p>hi</p>''))
   \<and> (parse ''a < b and b > c'' = Inr [NavigableString PlainString ''a < b and b > c'']
        \<longrightarrow> \<not> is_html parse (Some ''a < b and b > c''))"
  by (auto simp: is_html_def soup_find_def split: sum.splits list.splits)

theorem is_html_iff_witness:
  "is_html (\<lambda>t. if t = ''<p>hi</p>'' then Inr [Tag ''p'' [] [NavigableString PlainString ''hi'']]
                 else Inr [NavigableString PlainString t]) (Some ''<p>hi</p>'')
   \<and> \<not> is_html (\<lambda>t. if t = ''<p>hi</p>'' then Inr [Tag ''p'' [] [NavigableString PlainString ''hi'']]
                 else Inr [NavigableString PlainString t]) (Some ''a < b and b > c'')"
  using is_html_iff [of "\<lambda>t. if t = ''<p>hi</p>'' then Inr [Tag ''p'' [] [NavigableString PlainString ''hi'']]
                 else Inr [NavigableString PlainString t]" "''x''"]
  by simp

text \<open>
  Claim C1, as stated, fails: extraction strips every leaf, so echoing the values
  back writes the stripped text. The document \<^verbatim>\<open><p> hi </p>\<close>, whose tree is the element
  \<^verbatim>\<open>p\<close> around the string \<^verbatim>\<open> hi \<close>, comes back with the string \<^verbatim>\<open>hi\<close>.
\<close>

theorem round_trip_identity_counterexample:
  "extract_text_nodes (\<lambda>html. Inr [Tag ''p'' [] [NavigableString PlainString '' hi '']]) ''<p> hi </p>''
     = Inr [\<lparr>node_text = ''hi'', parent_tag = ''p'', attrs_of = [], path = ''/[document][0]/p[0]''\<rparr>]
   \<and> rebuild_soup (\<lambda>html. Inr [Tag ''p'' [] [NavigableString PlainString '' hi '']]) ''<p> hi </p>'' [''hi'']
     = Inr [Tag ''p'' [] [NavigableString PlainString ''hi'']]
   \<and> [Tag ''p'' [] [NavigableString PlainString ''hi'']] \<noteq> [Tag ''p'' [] [NavigableString PlainString '' hi '']]"
  by (simp add: extract_text_nodes_def rebuild_soup_def document_name_def child_path_def
      strip_def lstrip_def rstrip_def is_space_def str_of_nat_digits)

text \<open>
  Claim C1, amended. For every document that parses, rebuilding it from the values
  of its own extraction gives the tree of the document in which every leaf is a
  plain string holding its stripped text. The elements, their attributes, their
  nesting and the places of the children are those of the document. The result is
  the tree of the document itself exactly when every leaf is a plain string
  without white space around it.
\<close>

theorem round_trip_trims_leaves:
  assumes "parse html = Inr soup"
  shows "\<exists>nodes. extract_text_nodes parse html = Inr nodes
     \<and> rebuild_soup parse html (map node_text nodes) = Inr (trim_leaves soup)
     \<and> rebuild_html_from_nodes parse render html (map node_text nodes) = Inr (render (trim_leaves soup))
     \<and> skeleton (trim_leaves soup) = skeleton soup
     \<and> (trim_leaves soup = soup \<longleftrightarrow>
          (\<forall>x \<in> set (strings soup). is_leaf x \<longrightarrow> fst x = PlainString \<and> strip (snd x) = snd x))"
proof -
  let ?nodes = "recurse document_name [] [] 0 soup"
  have ex: "extract_text_nodes parse html = Inr ?nodes"
    using assms by (simp add: extract_text_nodes_def)
  have "recurse_replace (map node_text ?nodes) soup 0
          = (trim_leaves soup, length (filter is_leaf (strings soup)))"
    using replace_echo [of "[]" soup "[]"] by (simp add: recurse_texts)
  then have rs: "rebuild_soup parse html (map node_text ?nodes) = Inr (trim_leaves soup)"
    using assms by (simp add: rebuild_soup_def)
  then have rb: "rebuild_html_from_nodes parse render html (map node_text ?nodes)
          = Inr (render (trim_leaves soup))"
    by (simp add: rebuild_html_from_nodes_def)
  from ex rs rb skeleton_trim_leaves [of soup] trim_leaves_fixed [of soup] show ?thesis
    by blast
qed

theorem round_trip_trims_leaves_witness:
  "\<exists>nodes. extract_text_nodes (\<lambda>html. Inr [Tag ''p'' [] [NavigableString Comment '' hi '']]) ''<p><!-- hi --></p>''
       = Inr nodes
     \<and> rebuild_soup (\<lambda>html. Inr [Tag ''p'' [] [NavigableString Comment '' hi '']]) ''<p><!-- hi --></p>''
         (map node_text nodes)
       = Inr [Tag ''p'' [] [NavigableString PlainString ''hi'']]"
proof -
  let ?P = "\<lambda>html :: string. (Inr [Tag ''p'' [] [NavigableString Comment '' hi '']] :: exn + node list)"
  have t: "trim_leaves [Tag ''p'' [] [NavigableString Comment '' hi '']]
             = [Tag ''p'' [] [NavigableString PlainString ''hi'']]"
    by (simp add: strip_def lstrip_def rstrip_def is_space_def)
  have "\<exists>nodes. extract_text_nodes ?P ''<p><!-- hi --></p>'' = Inr nodes
     \<and> rebuild_soup ?P ''<p><!-- hi --></p>'' (map node_text nodes)
         = Inr (trim_leaves [Tag ''p'' [] [NavigableString Comment '' hi '']])"
    using round_trip_trims_leaves [of ?P "''<p><!-- hi --></p>''"
        "[Tag ''p'' [] [NavigableString Comment '' hi '']]" "\<lambda>soup. []"]
    by blast
  then show ?thesis
    unfolding t .
qed

text \<open>
  Claim C6. For every document with \<open>k\<close> extractable leaves and every list \<open>V\<close> of
  fewer than \<open>k\<close> values, \<^verbatim>\<open>rebuild_html_from_nodes\<close> returns without an exception the
  rendering of a tree with the elements of the document, in which the first
  \<open>length V\<close> leaves in traversal order are plain strings holding the values of \<open>V\<close> in
  order, the other leaves are the strings they were, and every string that is
  not a leaf is the string it was.
\<close>

theorem rebuild_short_list:
  assumes "extract_text_nodes parse html = Inr nodes"
    and "length V < length nodes"
  shows "\<exists>soup soup'. parse html = Inr soup
     \<and> rebuild_soup parse html V = Inr soup'
     \<and> rebuild_html_from_nodes parse render html V = Inr (render soup')
     \<and> skeleton soup' = skeleton soup
     \<and> length (strings soup') = length (strings soup)
     \<and> map snd (filter (\<lambda>p. is_leaf (fst p)) (zip (strings soup) (strings soup')))
         = map (Pair PlainString) V @ drop (length V) (filter is_leaf (strings soup))
     \<and> (\<forall>p \<in> set (zip (strings soup) (strings soup')). \<not> is_leaf (fst p) \<longrightarrow> snd p = fst p)"
proof -
  from assms(1) obtain soup where p: "parse html = Inr soup"
    and n: "nodes = recurse document_name [] [] 0 soup"
    by (auto simp: extract_text_nodes_def split: sum.splits)
  let ?soup' = "fst (recurse_replace V soup 0)"
  have k: "length V < length (filter is_leaf (strings soup))"
    using assms(2) n by (simp add: recurse_length)
  have st: "strings ?soup' = subst V (strings soup)"
    using replace_strings [of V soup 0] by simp
  have 1: "rebuild_soup parse html V = Inr ?soup'"
    using p by (simp add: rebuild_soup_def)
  have 2: "rebuild_html_from_nodes parse render html V = Inr (render ?soup')"
    using 1 by (simp add: rebuild_html_from_nodes_def)
  have 3: "skeleton ?soup' = skeleton soup"
    by (rule replace_skeleton)
  have 4: "length (strings ?soup') = length (strings soup)"
    by (simp add: st)
  have 5: "map snd (filter (\<lambda>p. is_leaf (fst p)) (zip (strings soup) (strings ?soup')))
         = map (Pair PlainString) V @ drop (length V) (filter is_leaf (strings soup))"
    using k by (simp add: st subst_leaves)
  have 6: "\<forall>p \<in> set (zip (strings soup) (strings ?soup')). \<not> is_leaf (fst p) \<longrightarrow> snd p = fst p"
    using subst_others [of _ _ "strings soup" V] by (auto simp: st)
  from p 1 2 3 4 5 6 show ?thesis by blast
qed

theorem rebuild_short_list_witness:
  "extract_text_nodes
      (\<lambda>html. Inr [Tag ''p'' [] [NavigableString PlainString ''Hello '', Tag ''b'' [] [NavigableString PlainString ''World'']]])
      ''<p>Hello <b>World</b></p>''
     = Inr [\<lparr>node_text = ''Hello'', parent_tag = ''p'', attrs_of = [], path = ''/[document][0]/p[0]''\<rparr>,
            \<lparr>node_text = ''World'', parent_tag = ''b'', attrs_of = [], path = ''/[document][0]/p[1]/b[0]''\<rparr>]
   \<and> rebuild_soup
      (\<lambda>html. Inr [Tag ''p'' [] [NavigableString PlainString ''Hello '', Tag ''b'' [] [NavigableString PlainString ''World'']]])
      ''<p>Hello <b>World</b></p>'' [''Hallo'']
     = Inr [Tag ''p'' [] [NavigableString PlainString ''Hallo'', Tag ''b'' [] [NavigableString PlainString ''World'']]]"
proof -
  let ?P = "\<lambda>html :: string. (Inr [Tag ''p'' [] [NavigableString PlainString ''Hello '',
              Tag ''b'' [] [NavigableString PlainString ''World'']]] :: exn + node list)"
  let ?nodes = "[\<lparr>node_text = ''Hello'', parent_tag = ''p'', attrs_of = [], path = ''/[document][0]/p[0]''\<rparr>,
            \<lparr>node_text = ''World'', parent_tag = ''b'', attrs_of = [], path = ''/[document][0]/p[1]/b[0]''\<rparr>]"
  have h1: "extract_text_nodes ?P ''<p>Hello <b>World</b></p>'' = Inr ?nodes"
    by (simp add: extract_text_nodes_def document_name_def child_path_def strip_def lstrip_def
        rstrip_def is_space_def str_of_nat_digits)
  have h2: "length [''Hallo''] < length ?nodes"
    by simp
  from rebuild_short_list [OF h1 h2, of "\<lambda>soup. []"]
  have "\<exists>soup'. rebuild_soup ?P ''<p>Hello <b>World</b></p>'' [''Hallo''] = Inr soup'"
    by blast
  then show ?thesis
    using h1 by (simp add: rebuild_soup_def strip_def lstrip_def rstrip_def is_space_def)
qed

section \<open>Properties of the translation client\<close>

lemma posts_append [simp]: "posts (a @ b) = posts a + posts b"
  by (simp add: posts_def)

lemma posts_simps [simp]:
  "posts [] = 0"
  "posts (Post u b # tr) = Suc (posts tr)"
  "posts (Print m # tr) = posts tr"
  "posts (Sleep n # tr) = posts tr"
  by (simp_all add: posts_def)

lemma post_once_failure:
  "non_success (net tr url texts) \<Longrightarrow>
     \<exists>tr1. post_once net url texts tr = (None, tr1) \<and> posts tr1 = Suc (posts tr)"
  by (auto simp: post_once_def non_success_def split: http_outcome.splits)

lemma translate_attempts_exhaust:
  "\<forall>h u b. non_success (net h u b) \<Longrightarrow>
     \<exists>tr'. translate_attempts net url texts retry attempt tr
            = (replicate (length texts) (PStr []), tr')
          \<and> posts tr' = posts tr + nat (retry - attempt)"
proof (induction net url texts retry attempt tr rule: translate_attempts.induct)
  case (1 net url texts retry attempt tr)
  show ?case
  proof (cases "attempt < retry")
    case False
    then show ?thesis by (simp add: translate_attempts.simps)
  next
    case True
    from 1(2) obtain tr1 where p: "post_once net url texts tr = (None, tr1)"
      and c: "posts tr1 = Suc (posts tr)"
      using post_once_failure [of net tr url texts] by blast
    from 1(1) [OF True p [symmetric] refl 1(2)]
    obtain tr' where r: "translate_attempts net url texts retry (attempt + 1)
          (tr1 @ [Sleep (2 ^ nat (attempt + 1))]) = (replicate (length texts) (PStr []), tr')"
      and n: "posts tr' = posts (tr1 @ [Sleep (2 ^ nat (attempt + 1))]) + nat (retry - (attempt + 1))"
      by blast
    have "translate_attempts net url texts retry attempt tr = (replicate (length texts) (PStr []), tr')"
      using True p r by (subst translate_attempts.simps) simp
    moreover have "posts tr' = posts tr + nat (retry - attempt)"
      using n c True by simp
    ultimately show ?thesis by blast
  qed
qed

text \<open>
  Claim C4. For every list of texts that is not empty, when every attempt gets a
  response that is not a 200 or an exception of the transport, \<^verbatim>\<open>translate_batch\<close>
  returns without raising a list of as many empty strings as there are texts, and
  the number of requests it has sent is \<^verbatim>\<open>retry\<close> (none when \<^verbatim>\<open>retry\<close> is below zero; three
  for the default).
\<close>

theorem translate_batch_exhausts_retries:
  assumes "texts \<noteq> []"
    and "\<forall>h u b. non_success (net h u b)"
  shows "\<exists>tr'. translate_batch self net texts lang retry tr
             = (Inr (replicate (length texts) (PStr [])), tr')
           \<and> posts tr' = posts tr + nat retry"
  using assms(1) translate_attempts_exhaust [OF assms(2), of "request_url self lang" texts retry 0 tr]
  by (auto simp: translate_batch_def)

theorem translate_batch_exhausts_retries_witness:
  "translate_batch \<lparr>key = ''k'', region = ''r'', target_lang = ''de'', endpoint = ''https://api''\<rparr>
      (\<lambda>h u b. if posts h = 1 then Raises RequestException else Response 500 ''busy'' (Inl JSONDecodeError))
      [''Hello'', ''World''] None 3 []
    = (Inr [PStr [], PStr []],
       [Post ''https://api/translate?api-version=3.0&to=de&textType=html'' [''Hello'', ''World''],
        Print (MsgBody [''Hello'', ''World'']), Print (MsgApiStatus 500 ''busy''), Sleep 2,
        Post ''https://api/translate?api-version=3.0&to=de&textType=html'' [''Hello'', ''World''],
        Print (MsgBody [''Hello'', ''World'']), Print (MsgApiError RequestException), Sleep 4,
        Post ''https://api/translate?api-version=3.0&to=de&textType=html'' [''Hello'', ''World''],
        Print (MsgBody [''Hello'', ''World'']), Print (MsgApiStatus 500 ''busy''), Sleep 8])"
proof -
  let ?net = "\<lambda>(h :: event list) (u :: string) (b :: string list).
      if posts h = 1 then Raises RequestException else Response 500 ''busy'' (Inl JSONDecodeError)"
  have h1: "[''Hello'', ''World''] \<noteq> []" by simp
  have h2: "\<forall>h u b. non_success (?net h u b)" by (simp add: non_success_def)
  from translate_batch_exhausts_retries [OF h1 h2,
      of "\<lparr>key = ''k'', region = ''r'', target_lang = ''de'', endpoint = ''https://api''\<rparr>" None 3 "[]"]
  have "fst (translate_batch \<lparr>key = ''k'', region = ''r'', target_lang = ''de'', endpoint = ''https://api''\<rparr>
      ?net [''Hello'', ''World''] None 3 []) = Inr [PStr [], PStr []]"
    by (auto simp: numeral_2_eq_2)
  then show ?thesis
    by (simp add: translate_batch_def request_url_def translate_attempts.simps post_once_def)
qed









section \<open>Properties of the database functions\<close>

lemma emit_simps [simp]:
  "trace (emit e w) = trace w @ [e]"
  "tables (emit e w) = tables w"
  "database (emit e w) = database w"
  by (simp_all add: emit_def)

lemma alters_simps [simp]:
  "alters [] = 0"
  "alters (tr @ tr') = alters tr + alters tr'"
  "alters (e # tr) = (if is_alter e then 1 else 0) + alters tr"
  by (simp_all add: alters_def)



lemma execute_error_tables: "fst (execute F q w) = Inl e \<Longrightarrow> tables (snd (execute F q w)) = tables w"
  by (simp add: execute_def split: sum.splits prod.splits if_splits)











section \<open>Properties of translate_and_update\<close>

lemma offsets_append [simp]: "offsets (tr @ tr') = offsets tr @ offsets tr'"
  by (induction tr rule: offsets.induct) simp_all

lemma row_ids_append [simp]: "row_ids (tr @ tr') = row_ids tr @ row_ids tr'"
  by (induction tr rule: row_ids.induct) simp_all

lemma translated_append [simp]: "translated (tr @ tr') = translated tr @ translated tr'"
  by (induction tr rule: translated.induct) simp_all

lemma execute_tables_error:
  "execute F q w = (Inl e, w') \<Longrightarrow> tables w' = tables w"
  by (auto simp: execute_def emit_def split: if_splits sum.splits prod.splits)
























lemma strip_Nil [simp]: "strip [] = []"
  by (simp add: strip_def lstrip_def rstrip_def)

lemma updates_append [simp]: "updates (tr @ tr') = updates tr @ updates tr'"
  by (induction tr rule: updates.induct) simp_all




















lemma execute_UpdateRow:
  "execute F (UpdateRow name tc c pk s rid) w = (r, w') \<Longrightarrow>
     trace w' = trace w @ [Sql (UpdateRow name tc c pk s rid)]
     \<and> (case r of
          Inl e \<Rightarrow> tables w' = tables w
        | Inr x \<Rightarrow> \<not> F (trace w) (UpdateRow name tc c pk s rid)
                  \<and> run_stmt (UpdateRow name tc c pk s rid) w = Inr (Done, tables w'))"
  by (auto simp: execute_def emit_def split: if_splits sum.splits option.splits prod.splits)

text \<open>
  Claim C2, amended. For every row whose translation is a string: the row is
  counted either as ok or as failed; it is counted as ok exactly when the
  translation is not empty after stripping and the \<^verbatim>\<open>UPDATE\<close> runs without an error.
  When the translation is not empty after stripping, one \<^verbatim>\<open>UPDATE\<close> is sent, the one
  that sets the target column and the source column to the translation where the
  key column equals the key of the row, and on success the tables are the ones
  this statement leaves. When the translation is empty after stripping nothing is
  sent. Whenever the row is counted as failed, the tables are the tables before
  it, so a row that was pending is still pending.
\<close>

theorem write_row_outcome:
  "\<exists>led' w'. write_row E name tc c pk rid (PStr s) led w = (Inr led', w')
     \<and> total led' = total led
     \<and> (ok led' = ok led + 1 \<and> fail led' = fail led \<or> ok led' = ok led \<and> fail led' = fail led + 1)
     \<and> (ok led' = ok led + 1 \<longleftrightarrow>
          strip s \<noteq> [] \<and> (\<exists>x. fst (execute (faults_of E) (UpdateRow name tc c pk s rid) w) = Inr x))
     \<and> (strip s \<noteq> [] \<longrightarrow>
          trace w' = trace w @ [Sql (UpdateRow name tc c pk s rid)]
          \<or> (\<exists>e. trace w' = trace w @ [Sql (UpdateRow name tc c pk s rid), Print (MsgUpdateFailed rid e)]))
     \<and> (strip s = [] \<longrightarrow> w' = emit (Print (MsgSkipped rid)) w)
     \<and> (ok led' = ok led + 1 \<longrightarrow> run_stmt (UpdateRow name tc c pk s rid) w = Inr (Done, tables w'))
     \<and> (ok led' = ok led \<longrightarrow> tables w' = tables w)"
proof (cases "strip s = []")
  case True
  then have "write_row E name tc c pk rid (PStr s) led w
      = (Inr (led\<lparr>fail := fail led + 1\<rparr>), emit (Print (MsgSkipped rid)) w)"
    by (simp add: write_row_def)
  with True show ?thesis by simp
next
  case False
  then have ne: "s \<noteq> []" by (auto simp: strip_def lstrip_def rstrip_def)
  obtain r1 w1 where e: "execute (faults_of E) (UpdateRow name tc c pk s rid) w = (r1, w1)"
    by (cases "execute (faults_of E) (UpdateRow name tc c pk s rid) w")
  note h = execute_UpdateRow [OF e]
  show ?thesis
  proof (cases r1)
    case (Inl x)
    with False ne e have "write_row E name tc c pk rid (PStr s) led w
      = (Inr (led\<lparr>fail := fail led + 1\<rparr>), emit (Print (MsgUpdateFailed rid x)) w1)"
      by (simp add: write_row_def)
    then show ?thesis using False e Inl h by auto
  next
    case (Inr x)
    with False ne e have "write_row E name tc c pk rid (PStr s) led w = (Inr (led\<lparr>ok := ok led + 1\<rparr>), w1)"
      by (simp add: write_row_def)
    then show ?thesis using False e Inr h by auto
  qed
qed

theorem write_row_outcome_witness:
  "\<exists>led' w'. write_row stub_env ''doc'' ''title_de'' ''title'' ''id'' (Some ''2'') (PStr ''Welt'')
        \<lparr>total = 2, ok = 0, fail = 0\<rparr> doc_world_ready = (Inr led', w')
     \<and> ok led' = 1
     \<and> tables w'
         = [((''cms'', ''doc''),
             \<lparr>columns = [(''id'', ''int'', ''PRI''), (''title'', ''text'', []), (''title_de'', ''longtext'', [])],
              rows = [[Some ''1'', Some ''<p>Hello</p>'', None], [Some ''2'', Some ''Welt'', Some ''Welt'']]\<rparr>)]"
proof -
  let ?U = "UpdateRow ''doc'' ''title_de'' ''title'' ''id'' ''Welt'' (Some ''2'')"
  have s: "strip ''Welt'' \<noteq> []"
    by (simp add: strip_def lstrip_def rstrip_def is_space_def)
  have r: "run_stmt ?U doc_world_ready
      = Inr (Done, [((''cms'', ''doc''),
             \<lparr>columns = [(''id'', ''int'', ''PRI''), (''title'', ''text'', []), (''title_de'', ''longtext'', [])],
              rows = [[Some ''1'', Some ''<p>Hello</p>'', None], [Some ''2'', Some ''Welt'', Some ''Welt'']]\<rparr>)])"
    by (simp add: doc_world_ready_def current_table_def column_index_def update_cells_def cell_at_def)
  have x: "\<exists>x. fst (execute (faults_of stub_env) ?U doc_world_ready) = Inr x"
    by (simp add: execute_def stub_env_def r del: run_stmt.simps)
  have t: "trace doc_world_ready = []"
    by (simp add: doc_world_ready_def)
  from write_row_outcome [of stub_env "''doc''" "''title_de''" "''title''" "''id''" "Some ''2''" "''Welt''"
      "\<lparr>total = 2, ok = 0, fail = 0\<rparr>" doc_world_ready]
  obtain led' w' where w: "write_row stub_env ''doc'' ''title_de'' ''title'' ''id'' (Some ''2'') (PStr ''Welt'')
        \<lparr>total = 2, ok = 0, fail = 0\<rparr> doc_world_ready = (Inr led', w')"
    and i: "ok led' = ok \<lparr>total = 2, ok = 0, fail = 0\<rparr> + 1 \<longleftrightarrow>
          strip ''Welt'' \<noteq> [] \<and> (\<exists>x. fst (execute (faults_of stub_env) ?U doc_world_ready) = Inr x)"
    and tr: "strip ''Welt'' \<noteq> [] \<longrightarrow> trace w' = trace doc_world_ready @ [Sql ?U]
          \<or> (\<exists>e. trace w' = trace doc_world_ready @ [Sql ?U, Print (MsgUpdateFailed (Some ''2'') e)])"
    and rs: "ok led' = ok \<lparr>total = 2, ok = 0, fail = 0\<rparr> + 1 \<longrightarrow> run_stmt ?U doc_world_ready = Inr (Done, tables w')"
    and un: "ok led' = ok \<lparr>total = 2, ok = 0, fail = 0\<rparr> \<longrightarrow> tables w' = tables doc_world_ready"
    by blast
  from i s x have o: "ok led' = 1" by simp
  with rs r have tb: "tables w'
         = [((''cms'', ''doc''),
             \<lparr>columns = [(''id'', ''int'', ''PRI''), (''title'', ''text'', []), (''title_de'', ''longtext'', [])],
              rows = [[Some ''1'', Some ''<p>Hello</p>'', None], [Some ''2'', Some ''Welt'', Some ''Welt'']]\<rparr>)]"
    by simp
  from w o tb show ?thesis by blast
qed



text \<open>
  Claim C2, as stated, fails: a row whose translation is not empty after
  stripping is counted as failed when its \<^verbatim>\<open>UPDATE\<close> raises.
\<close>

theorem write_row_outcome_counterexample:
  "write_row (stub_env\<lparr>faults_of := (\<lambda>h q. True)\<rparr>) ''doc'' ''title_de'' ''title'' ''id'' (Some ''2'')
      (PStr ''Welt'') \<lparr>total = 2, ok = 0, fail = 0\<rparr> doc_world_ready
    = (Inr \<lparr>total = 2, ok = 0, fail = 1\<rparr>,
       doc_world_ready\<lparr>trace := [Sql (UpdateRow ''doc'' ''title_de'' ''title'' ''id'' ''Welt'' (Some ''2'')),
                            Print (MsgUpdateFailed (Some ''2'') DatabaseError)]\<rparr>)
   \<and> strip ''Welt'' \<noteq> []"
  by (simp add: write_row_def stub_env_def execute_def emit_def doc_world_ready_def strip_def lstrip_def
      rstrip_def is_space_def)






end
